theory Spec2Isabelle
  imports Complex_Main "HOL-Library.Multiset"
begin

section \<open>Exceptions and assertions\<close>

text \<open>
  The exceptions that the modelled functions raise. A function that can raise returns
  \<open>error + 'a\<close>, with \<open>Inl\<close> for the exception.
\<close>

datatype error =
    ExcTransformationFailed
  | ExcNotImplemented
  | ExcInternalError
  | ExcIndexRange
  | ExcDimensionMismatch
  | ExcDistortedMappedCell
  | ExcMessage

text \<open>
  \<open>Assert(cond, exc)\<close> and \<open>AssertThrow(cond, exc)\<close> are macros of
  \<open>base/exceptions.h\<close>, which is not among the files at hand. \<open>AssertThrow\<close> tests
  its condition in every build. \<open>Assert\<close> tests it in a debug build only and expands
  to nothing otherwise; the sources at hand rely on that where they cast a variable
  that only an assertion reads to \<open>void\<close> (\<open>(void)n_shapes;\<close>), return a value after
  \<open>Assert(false, ...)\<close>, and put the longer checks under \<open>#ifdef DEBUG\<close>. The build
  mode is the argument \<open>debug\<close>.
\<close>

definition Assert :: "bool \<Rightarrow> bool \<Rightarrow> error \<Rightarrow> error + unit" where
  "Assert debug cond exc = (if debug \<and> \<not> cond then Inl exc else Inr ())"

definition AssertThrow :: "bool \<Rightarrow> error \<Rightarrow> error + unit" where
  "AssertThrow cond exc = (if \<not> cond then Inl exc else Inr ())"

section \<open>Matrix-free setup: cell batches (matrix\_free.templates.h)\<close>

text \<open>
  The last part of \<open>internal::compute_dof_info\<close> regroups the cell handles
  \<open>cell_level_index\<close> into batches of \<open>n_lanes\<close> entries. The plan of the batches
  is the array \<open>irregular_cells\<close>: entry \<open>i\<close> is \<open>0\<close> for a batch with all lanes in
  use and the number of lanes in use otherwise. The plan, the \<open>renumbering\<close> and the
  number of batches \<open>task_info.cell_partition_data.back()\<close> come from
  \<open>TaskInfo::create_blocks_serial\<close> or \<open>TaskInfo::make_thread_graph\<close>, which are
  defined in another file; they are arguments here. Unsigned counters are natural
  numbers (no wrap-around below \<open>2^32\<close> cells).
\<close>

type_synonym cell_handle = "nat \<times> nat"

text \<open>\<open>n_comp = (irregular_cells[i] > 0) ? irregular_cells[i] : n_lanes\<close>\<close>

definition n_comp_of :: "nat \<Rightarrow> nat \<Rightarrow> nat" where
  "n_comp_of n_lanes ic = (if ic > 0 then ic else n_lanes)"

text \<open>
  \<open>cell_level_index_old[renumbering[k]]\<close>. Both reads are unchecked
  \<open>std::vector::operator[]\<close> calls; a read past the end is undefined behaviour in the
  source and \<open>None\<close> here.
\<close>

definition renumbered_cell :: "'a list \<Rightarrow> nat list \<Rightarrow> nat \<Rightarrow> 'a option" where
  "renumbered_cell cell_level_index_old renumbering k =
     (if k < length renumbering \<and> renumbering ! k < length cell_level_index_old
      then Some (cell_level_index_old ! (renumbering ! k)) else None)"

text \<open>
  The positions of \<open>renumbering\<close> read for one batch: lanes \<open>0 .. n_comp - 1\<close> read
  \<open>position_cell + j\<close>, the lanes \<open>n_comp .. n_lanes - 1\<close> read
  \<open>position_cell + n_comp - 1\<close> again.
\<close>

definition lane_positions :: "nat \<Rightarrow> nat \<Rightarrow> nat \<Rightarrow> nat list" where
  "lane_positions n_lanes n_comp position_cell =
     [position_cell ..< position_cell + n_comp] @
     replicate (n_lanes - n_comp) (position_cell + n_comp - 1)"

text \<open>
  The loop \<open>for (i = 0; i < cell_partition_data.back(); ++i)\<close>, by recursion on the
  entries of \<open>irregular_cells\<close> still to be visited. The result is the new
  \<open>cell_level_index\<close> together with the final \<open>position_cell\<close>.
\<close>

fun fill_batches ::
  "nat \<Rightarrow> 'a list \<Rightarrow> nat list \<Rightarrow> nat list \<Rightarrow> nat \<Rightarrow> ('a list \<times> nat) option" where
  "fill_batches n_lanes old renumbering [] position_cell = Some ([], position_cell)"
| "fill_batches n_lanes old renumbering (ic # ics) position_cell =
     (let n_comp = n_comp_of n_lanes ic in
      case those (map (renumbered_cell old renumbering)
                      (lane_positions n_lanes n_comp position_cell)) of
        None \<Rightarrow> None
      | Some lanes \<Rightarrow>
          (case fill_batches n_lanes old renumbering ics (position_cell + n_comp) of
             None \<Rightarrow> None
           | Some (rest, p) \<Rightarrow> Some (lanes @ rest, p)))"

definition renumber_cell_level_index ::
  "nat \<Rightarrow> nat \<Rightarrow> nat list \<Rightarrow> nat list \<Rightarrow> 'a list \<Rightarrow> ('a list \<times> nat) option" where
  "renumber_cell_level_index n_lanes n_batches irregular_cells renumbering old =
     (if n_batches \<le> length irregular_cells
      then fill_batches n_lanes old renumbering (take n_batches irregular_cells) 0
      else None)"

text \<open>The first position of \<open>renumbering\<close> read by batch \<open>i\<close>.\<close>

definition batch_start :: "nat \<Rightarrow> nat list \<Rightarrow> nat \<Rightarrow> nat" where
  "batch_start n_lanes irregular_cells i =
     sum_list (map (n_comp_of n_lanes) (take i irregular_cells))"

text \<open>The lanes in use of a flat batch array, batch by batch.\<close>

fun active_lanes :: "nat \<Rightarrow> nat list \<Rightarrow> 'a list \<Rightarrow> 'a list" where
  "active_lanes n_lanes [] flat = []"
| "active_lanes n_lanes (ic # ics) flat =
     take (n_comp_of n_lanes ic) flat @ active_lanes n_lanes ics (drop n_lanes flat)"


text \<open>
  The slots of the ghost cells are appended to the plan in the branch for a threaded
  scheme:
  \<^verbatim>\<open>
  irregular_cells.resize(task_info.cell_partition_data.back() + n_ghost_slots);
  if (n_ghost_slots > 0)
    {
      for (unsigned int i = task_info.cell_partition_data.back();
           i < task_info.cell_partition_data.back() + n_ghost_slots - 1; ++i)
        irregular_cells[i] = 0;
      irregular_cells.back() = task_info.n_ghost_cells % n_lanes;
    }
  \<close>
  \<open>n_lanes\<close> is \<open>VectorizedArrayType::size()\<close>, which is never zero.
\<close>

definition resize :: "nat \<Rightarrow> 'a \<Rightarrow> 'a list \<Rightarrow> 'a list" where
  "resize n v xs = take n xs @ replicate (n - length xs) v"

definition set_ghost_slots :: "nat \<Rightarrow> nat \<Rightarrow> nat \<Rightarrow> nat \<Rightarrow> nat list \<Rightarrow> nat list" where
  "set_ghost_slots n_lanes back n_ghost_slots n_ghost_cells irregular_cells =
     (let ic = resize (back + n_ghost_slots) 0 irregular_cells in
      if n_ghost_slots > 0
      then (fold (\<lambda>i xs. xs[i := 0]) [back ..< back + n_ghost_slots - 1] ic)
             [length ic - 1 := n_ghost_cells mod n_lanes]
      else ic)"



section \<open>Matrix-free setup: threading check and constraint pool\<close>

text \<open>\<open>TaskInfo::TasksParallelScheme\<close>\<close>

datatype TasksParallelScheme =
  TaskInfo_none | TaskInfo_partition_partition | TaskInfo_partition_color | TaskInfo_color






section \<open>MappingQGeneric: tensors\<close>

text \<open>
  A \<open>double\<close> is a real number here: rounding, overflow and NaN are outside the
  model. \<open>Point<dim>\<close> and \<open>Tensor<1, dim>\<close> are lists of coordinates,
  \<open>Tensor<2, dim>\<close> and \<open>DerivativeForm<1, dim, spacedim>\<close> are lists of rows. The
  tensors of higher rank are only stored and copied; they are lists of components.
  The operations below are those of \<open>base/tensor.h\<close>, which is not among the files at
  hand, for the dimensions 1 to 3 that the library instantiates.
\<close>

type_synonym point = "real list"
type_synonym matrix = "real list list"

definition norm_square :: "real list \<Rightarrow> real" where
  "norm_square v = sum_list (map (\<lambda>x. x * x) v)"

definition matrix_norm_square :: "matrix \<Rightarrow> real" where
  "matrix_norm_square m = sum_list (map norm_square m)"

text \<open>\<open>Tensor::norm\<close>\<close>

definition tensor_norm :: "real list \<Rightarrow> real" where
  "tensor_norm v = sqrt (norm_square v)"

fun determinant :: "matrix \<Rightarrow> real" where
  "determinant [[a]] = a"
| "determinant [[a, b], [c, d]] = a * d - b * c"
| "determinant [[a, b, c], [d, e, f], [g, h, i]] =
     a * (e * i - f * h) - b * (d * i - f * g) + c * (d * h - e * g)"
| "determinant m = 0"

fun invert :: "matrix \<Rightarrow> matrix" where
  "invert [[a]] = [[1 / a]]"
| "invert [[a, b], [c, d]] =
     (let t = 1 / (a * d - b * c) in [[d * t, - b * t], [- c * t, a * t]])"
| "invert [[a, b, c], [d, e, f], [g, h, i]] =
     (let t = 1 / (a * (e * i - f * h) - b * (d * i - f * g) + c * (d * h - e * g)) in
      [[(e * i - f * h) * t, (c * h - b * i) * t, (b * f - c * e) * t],
       [(f * g - d * i) * t, (a * i - c * g) * t, (c * d - a * f) * t],
       [(d * h - e * g) * t, (b * g - a * h) * t, (a * e - b * d) * t]])"
| "invert m = m"

definition scalar_product :: "real list \<Rightarrow> real list \<Rightarrow> real" where
  "scalar_product u v = sum_list (map2 (*) u v)"

text \<open>\<open>df_inverse * f\<close>\<close>

definition mat_vec :: "matrix \<Rightarrow> real list \<Rightarrow> real list" where
  "mat_vec m v = map (\<lambda>row. scalar_product row v) m"

text \<open>\<open>a - b\<close> on points and tensors of rank 1.\<close>

definition minus_vec :: "real list \<Rightarrow> real list \<Rightarrow> real list" where
  "minus_vec u v = map2 (-) u v"

section \<open>MappingQGeneric: fill\_fe\_values\<close>

text \<open>
  \<open>CellSimilarity::Similarity\<close>. The code at hand compares a similarity with
  \<open>translation\<close> and \<open>inverted_translation\<close> only.
\<close>

datatype Similarity =
    CellSimilarity_none
  | CellSimilarity_translation
  | CellSimilarity_inverted_translation
  | CellSimilarity_invalid_next_cell







text \<open>Sequencing: the second step runs on the result of the first unless that raised.\<close>

definition bind_error :: "error + 'a \<Rightarrow> ('a \<Rightarrow> error + 'b) \<Rightarrow> error + 'b" where
  "bind_error m f = (case m of Inl e \<Rightarrow> Inl e | Inr x \<Rightarrow> f x)"





























section \<open>MappingQGeneric: the forward map\<close>

text \<open>
  \<open>compute_mapped_location_of_point(points, poly, renumber, p)\<close> returns the image of
  the reference point \<open>p\<close> and the Jacobian there. For a mapping of degree 1
  (\<open>n_shapes == 2\<close>) the source has closed formulas, modelled below for
  \<open>dim = spacedim\<close>; for higher degrees it evaluates the polynomials of
  \<open>base/polynomial.h\<close>, which is not among the files at hand. The functions that
  invert the mapping use it as a black box: it is their argument \<open>F\<close>.
\<close>

definition plus_vec :: "real list \<Rightarrow> real list \<Rightarrow> real list" where
  "plus_vec u v = map2 (+) u v"

definition scale_vec :: "real \<Rightarrow> real list \<Rightarrow> real list" where
  "scale_vec a v = map (\<lambda>x. a * x) v"


section \<open>MappingQGeneric: Newton iteration for dim = spacedim\<close>

text \<open>
  A coordinate of a point that a function returns. The inversion reports failure by a
  point whose first coordinate is \<open>+infinity\<close>, and the closed formula in one
  dimension divides without a test, so the special values of a \<open>double\<close> that a
  division by zero produces are part of the type.
\<close>

datatype coordinate = Finite real | PlusInfinity | MinusInfinity | NaN

text \<open>\<open>Point<dim> invalid_point; invalid_point[0] = infinity;\<close>\<close>

definition invalid_point :: "nat \<Rightarrow> coordinate list" where
  "invalid_point dimension = (replicate dimension (Finite 0))[0 := PlusInfinity]"

definition eps_newton :: real where
  "eps_newton = 1 / 10 ^ 11"

definition newton_iteration_limit :: nat where
  "newton_iteration_limit = 20"

text \<open>
  The line search, the inner \<open>do ... while (true)\<close>. It starts with
  \<open>step_length = 1\<close>; the result \<open>None\<close> is the \<open>return invalid_point\<close> of the
  source.
\<close>

function line_search ::
  "(point \<Rightarrow> point \<times> matrix) \<Rightarrow> point \<Rightarrow> point \<Rightarrow> real list \<Rightarrow> real list \<Rightarrow> real \<Rightarrow>
   (point \<times> (point \<times> matrix) \<times> real list) option" where
  "line_search F p p_unit f delta step_length =
     (let p_unit_trial = map2 (\<lambda>x d. x - step_length * d) p_unit delta;
          p_real_trial = F p_unit_trial;
          f_trial = minus_vec (fst p_real_trial) p
      in if norm_square f_trial < norm_square f
         then Some (p_unit_trial, p_real_trial, f_trial)
         else if step_length > 5 / 100
         then line_search F p p_unit f delta (step_length / 2)
         else None)"
  by pat_completeness auto
termination
proof (relation "measure (\<lambda>(F, p, p_unit, f, delta, step_length). nat \<lceil>64 * step_length\<rceil>)")
  show "wf (measure (\<lambda>(F, p, p_unit, f, delta, step_length). nat \<lceil>64 * step_length\<rceil>))"
    by simp
next
  fix F :: "point \<Rightarrow> point \<times> matrix" and p p_unit f delta :: "real list"
    and step_length :: real and x xa xb
  assume "5 / 100 < step_length"
  then have "\<lceil>64 * (step_length / 2)\<rceil> < \<lceil>64 * step_length\<rceil>" "0 < \<lceil>64 * step_length\<rceil>"
    by linarith+
  then show "((F, p, p_unit, f, delta, step_length / 2), F, p, p_unit, f, delta, step_length)
       \<in> measure (\<lambda>(F, p, p_unit, f, delta, step_length). nat \<lceil>64 * step_length\<rceil>)"
    by simp
qed

declare line_search.simps [simp del]

text \<open>How a run of the Newton iteration ends.\<close>

datatype newton_exit =
  EarlyOut | Converged | DetNonPositive | LineSearchFailed | IterationLimit

text \<open>
  The outer \<open>do ... while (last_f_weighted_norm_square > eps * eps)\<close>. The state is
  \<open>p_unit\<close>, \<open>p_real\<close> (the image of \<open>p_unit\<close> and the Jacobian there), the
  residual \<open>f\<close> and the counter \<open>newton_iteration\<close>. \<open>df\<close> is a reference to
  \<open>p_real.second\<close>, but \<open>df_inverse\<close> is computed before the line search replaces
  \<open>p_real\<close>: the weighted norm of the new residual is taken with the inverse of the
  Jacobian at the previous iterate. The result is the way the run ended, the last
  \<open>p_unit\<close> and the last value of \<open>newton_iteration\<close>.
\<close>

function newton_loop ::
  "(point \<Rightarrow> point \<times> matrix) \<Rightarrow> point \<Rightarrow> point \<Rightarrow> point \<times> matrix \<Rightarrow> real list \<Rightarrow> nat \<Rightarrow>
   newton_exit \<times> point \<times> nat" where
  "newton_loop F p p_unit p_real f newton_iteration =
     (let df = snd p_real in
      if determinant df \<le> 0 then (DetNonPositive, p_unit, newton_iteration)
      else
        (let df_inverse = invert df;
             delta = mat_vec df_inverse f
         in case line_search F p p_unit f delta 1 of
              None \<Rightarrow> (LineSearchFailed, p_unit, newton_iteration)
            | Some (p_unit1, p_real1, f1) \<Rightarrow>
                if newton_iteration + 1 > newton_iteration_limit
                then (IterationLimit, p_unit1, newton_iteration + 1)
                else if norm_square (mat_vec df_inverse f1) > eps_newton * eps_newton
                then newton_loop F p p_unit1 p_real1 f1 (newton_iteration + 1)
                else (Converged, p_unit1, newton_iteration + 1)))"
  by pat_completeness auto
termination
  by (relation "measure (\<lambda>(F, p, p_unit, p_real, f, newton_iteration).
                   Suc newton_iteration_limit - newton_iteration)")
     (auto simp: newton_iteration_limit_def)

declare newton_loop.simps [simp del]

text \<open>
  \<open>do_transform_real_to_unit_cell_internal\<close>: the early exit, then the loop. The
  first function keeps how the run ended; the second is the source's function, which
  returns \<open>p_unit\<close> or the invalid point. (The source first checks, in a debug build,
  that the number of support points fits the polynomials; both are inside \<open>F\<close>
  here.)
\<close>

definition newton_run ::
  "(point \<Rightarrow> point \<times> matrix) \<Rightarrow> point \<Rightarrow> point \<Rightarrow> newton_exit \<times> point \<times> nat" where
  "newton_run F p initial_p_unit =
     (let p_real = F initial_p_unit;
          f = minus_vec (fst p_real) p
      in if norm_square f < 1 / 10 ^ 24 * matrix_norm_square (snd p_real)
         then (EarlyOut, initial_p_unit, 0)
         else newton_loop F p initial_p_unit p_real f 0)"

definition do_transform_real_to_unit_cell_internal ::
  "nat \<Rightarrow> (point \<Rightarrow> point \<times> matrix) \<Rightarrow> point \<Rightarrow> point \<Rightarrow> coordinate list" where
  "do_transform_real_to_unit_cell_internal dimension F p initial_p_unit =
     (case newton_run F p initial_p_unit of
        (ex, p_unit, n) \<Rightarrow>
          if ex = EarlyOut \<or> ex = Converged then map Finite p_unit
          else invalid_point dimension)"





text \<open>
  \<open>p_unit[0] == std::numeric_limits<double>::infinity()\<close>. A \<open>Point<dim>\<close> has at
  least one coordinate.
\<close>

definition first_coordinate_is_infinity :: "coordinate list \<Rightarrow> bool" where
  "first_coordinate_is_infinity p_unit =
     (case p_unit of [] \<Rightarrow> False | c # cs \<Rightarrow> c = PlusInfinity)"

section \<open>MappingQGeneric: Newton iteration for dim = spacedim - 1\<close>

text \<open>
  \<open>do_transform_real_to_unit_cell_internal_codim1\<close>.
  \<open>mdata.compute_shape_function_values\<close> is defined in another part of the library;
  \<open>shape\<close> stands for it: for a reference point it gives, for each shape function
  \<open>k\<close>, its value, its gradient and its Hessian there. From these and the support
  points the source computes \<open>DF\<close>, \<open>D2F\<close>, \<open>p_minus_F\<close> and then the residual
  \<open>f\<close> and its derivative \<open>df\<close>.
\<close>

type_synonym shape_functions = "point \<Rightarrow> (real \<times> real list \<times> real list list) list"

fun sum_vecs :: "nat \<Rightarrow> real list list \<Rightarrow> real list" where
  "sum_vecs spacedim [] = replicate spacedim 0"
| "sum_vecs spacedim (v # vs) = plus_vec v (sum_vecs spacedim vs)"

definition codim1_residual ::
  "nat \<Rightarrow> nat \<Rightarrow> shape_functions \<Rightarrow> point list \<Rightarrow> point \<Rightarrow> point \<Rightarrow> real list \<times> matrix" where
  "codim1_residual dimension spacedim shape points p p_unit =
     (let s = shape p_unit;
          DF = map (\<lambda>j. sum_vecs spacedim
                      (map2 (\<lambda>(v, g, h) point_k. scale_vec (g ! j) point_k) s points))
                   [0 ..< dimension];
          D2F = map (\<lambda>j. map (\<lambda>l. sum_vecs spacedim
                      (map2 (\<lambda>(v, g, h) point_k. scale_vec (h ! j ! l) point_k) s points))
                   [0 ..< dimension]) [0 ..< dimension];
          p_minus_F = minus_vec p
                        (sum_vecs spacedim
                           (map2 (\<lambda>(v, g, h) point_k. scale_vec v point_k) s points));
          f = map (\<lambda>j. scalar_product (DF ! j) p_minus_F) [0 ..< dimension];
          df = map (\<lambda>j. map (\<lambda>l. - scalar_product (DF ! j) (DF ! l) +
                                   scalar_product (D2F ! j ! l) p_minus_F)
                              [0 ..< dimension]) [0 ..< dimension]
      in (f, df))"

definition loop_limit :: nat where
  "loop_limit = 10"

text \<open>
  \<open>while (f.norm() > eps && loop++ < loop_limit)\<close>: the counter is incremented only
  when the first condition holds, also when the second one then fails. The result is
  the last \<open>p_unit\<close>, the last residual and the last value of \<open>loop\<close>.
\<close>

function codim1_loop ::
  "(point \<Rightarrow> real list \<times> matrix) \<Rightarrow> real \<Rightarrow> point \<Rightarrow> real list \<Rightarrow> matrix \<Rightarrow> nat \<Rightarrow>
   point \<times> real list \<times> nat" where
  "codim1_loop G eps p_unit f df loop =
     (if tensor_norm f > eps
      then (if loop < loop_limit
            then (let d = mat_vec (invert df) f;
                      p_unit1 = minus_vec p_unit d
                  in codim1_loop G eps p_unit1 (fst (G p_unit1)) (snd (G p_unit1)) (loop + 1))
            else (p_unit, f, loop + 1))
      else (p_unit, f, loop))"
  by pat_completeness auto
termination
  by (relation "measure (\<lambda>(G, eps, p_unit, f, df, loop). loop_limit - loop)") auto

declare codim1_loop.simps [simp del]

definition do_transform_real_to_unit_cell_internal_codim1 ::
  "nat \<Rightarrow> nat \<Rightarrow> shape_functions \<Rightarrow> point list \<Rightarrow> real \<Rightarrow> point \<Rightarrow> point \<Rightarrow> error + point" where
  "do_transform_real_to_unit_cell_internal_codim1 dimension spacedim shape points diameter
     p initial_p_unit =
     (let G = codim1_residual dimension spacedim shape points p;
          eps = 1 / 10 ^ 12 * diameter
      in case codim1_loop G eps initial_p_unit (fst (G initial_p_unit))
                (snd (G initial_p_unit)) 0 of
           (p_unit, f, loop) \<Rightarrow>
             bind_error (AssertThrow (loop < loop_limit) ExcTransformationFailed)
               (\<lambda>_. Inr p_unit))"

section \<open>MappingQ1: the closed formulas\<close>

text \<open>
  A division of two \<open>double\<close>s that the source does not guard: a zero divisor gives
  an infinity or NaN, no exception. (Signed zeros are not modelled.)
\<close>

definition divide_double :: "real \<Rightarrow> real \<Rightarrow> coordinate" where
  "divide_double a b =
     (if b \<noteq> 0 then Finite (a / b)
      else if a > 0 then PlusInfinity
      else if a < 0 then MinusInfinity
      else NaN)"

text \<open>\<open>internal::MappingQ1::transform_real_to_unit_cell\<close> for \<open>dim = 1\<close>\<close>

definition MappingQ1_transform_real_to_unit_cell_1d :: "point list \<Rightarrow> point \<Rightarrow> coordinate list" where
  "MappingQ1_transform_real_to_unit_cell_1d vertices p =
     [divide_double (p ! 0 - vertices ! 0 ! 0) (vertices ! 1 ! 0 - vertices ! 0 ! 0)]"

text \<open>
  \<open>internal::MappingQ1::transform_real_to_unit_cell\<close> for \<open>dim = 2\<close>. The source
  computes in \<open>long double\<close>; here the arithmetic is exact. The local variables of
  the source are functions of the vertices and the point, so that statements about
  the function can name them.
\<close>

definition quadratic_a :: "point list \<Rightarrow> real" where
  "quadratic_a vertices =
     (let x0 = vertices ! 0 ! 0; x1 = vertices ! 1 ! 0; x2 = vertices ! 2 ! 0;
          x3 = vertices ! 3 ! 0; y0 = vertices ! 0 ! 1; y1 = vertices ! 1 ! 1;
          y2 = vertices ! 2 ! 1; y3 = vertices ! 3 ! 1
      in (x1 - x3) * (y0 - y2) - (x0 - x2) * (y1 - y3))"

definition quadratic_b :: "point list \<Rightarrow> point \<Rightarrow> real" where
  "quadratic_b vertices p =
     (let x = p ! 0; y = p ! 1;
          x0 = vertices ! 0 ! 0; x1 = vertices ! 1 ! 0; x2 = vertices ! 2 ! 0;
          x3 = vertices ! 3 ! 0; y0 = vertices ! 0 ! 1; y1 = vertices ! 1 ! 1;
          y2 = vertices ! 2 ! 1; y3 = vertices ! 3 ! 1
      in - (x0 - x1 - x2 + x3) * y + (x - 2 * x1 + x3) * y0 - (x - 2 * x0 + x2) * y1 -
         (x - x1) * y2 + (x - x0) * y3)"

definition quadratic_c :: "point list \<Rightarrow> point \<Rightarrow> real" where
  "quadratic_c vertices p =
     (let x = p ! 0; y = p ! 1;
          x0 = vertices ! 0 ! 0; x1 = vertices ! 1 ! 0;
          y0 = vertices ! 0 ! 1; y1 = vertices ! 1 ! 1
      in (x0 - x1) * y - (x - x1) * y0 + (x - x0) * y1)"

definition discriminant :: "point list \<Rightarrow> point \<Rightarrow> real" where
  "discriminant vertices p =
     quadratic_b vertices p * quadratic_b vertices p -
     4 * quadratic_a vertices * quadratic_c vertices p"

text \<open>\<open>eta1\<close> and \<open>eta2\<close>, in the three cases of the source.\<close>

definition eta_candidates :: "point list \<Rightarrow> point \<Rightarrow> real \<times> real" where
  "eta_candidates vertices p =
     (let a = quadratic_a vertices; b = quadratic_b vertices p; c = quadratic_c vertices p;
          sqrt_discriminant = sqrt (discriminant vertices p)
      in if b \<noteq> 0 \<and> \<bar>b\<bar> = sqrt_discriminant then (- c / b, - c / b)
         else if \<bar>a\<bar> < 1 / 10 ^ 8 * \<bar>b\<bar>
         then (2 * c / (- b - sqrt_discriminant), 2 * c / (- b + sqrt_discriminant))
         else ((- b - sqrt_discriminant) / (2 * a), (- b + sqrt_discriminant) / (2 * a)))"

text \<open>\<open>eta = (std::abs(eta1 - 0.5) < std::abs(eta2 - 0.5)) ? eta1 : eta2\<close>\<close>

definition eta_of :: "point list \<Rightarrow> point \<Rightarrow> real" where
  "eta_of vertices p =
     (case eta_candidates vertices p of
        (eta1, eta2) \<Rightarrow> if \<bar>eta1 - 1 / 2\<bar> < \<bar>eta2 - 1 / 2\<bar> then eta1 else eta2)"

definition subexpr0 :: "point list \<Rightarrow> real \<Rightarrow> real" where
  "subexpr0 vertices eta = - eta * (vertices ! 2 ! 0) + vertices ! 0 ! 0 * (eta - 1)"

definition xi_denominator0 :: "point list \<Rightarrow> real \<Rightarrow> real" where
  "xi_denominator0 vertices eta =
     eta * (vertices ! 3 ! 0) - vertices ! 1 ! 0 * (eta - 1) + subexpr0 vertices eta"

definition max_x :: "point list \<Rightarrow> real" where
  "max_x vertices =
     max (max \<bar>vertices ! 0 ! 0\<bar> \<bar>vertices ! 1 ! 0\<bar>) (max \<bar>vertices ! 2 ! 0\<bar> \<bar>vertices ! 3 ! 0\<bar>)"

definition subexpr1 :: "point list \<Rightarrow> real \<Rightarrow> real" where
  "subexpr1 vertices eta = - eta * (vertices ! 2 ! 1) + vertices ! 0 ! 1 * (eta - 1)"

definition xi_denominator1 :: "point list \<Rightarrow> real \<Rightarrow> real" where
  "xi_denominator1 vertices eta =
     eta * (vertices ! 3 ! 1) - vertices ! 1 ! 1 * (eta - 1) + subexpr1 vertices eta"

definition max_y :: "point list \<Rightarrow> real" where
  "max_y vertices =
     max (max \<bar>vertices ! 0 ! 1\<bar> \<bar>vertices ! 1 ! 1\<bar>) (max \<bar>vertices ! 2 ! 1\<bar> \<bar>vertices ! 3 ! 1\<bar>)"

definition MappingQ1_transform_real_to_unit_cell_2d ::
  "point list \<Rightarrow> point \<Rightarrow> error + (real \<times> real)" where
  "MappingQ1_transform_real_to_unit_cell_2d vertices p =
     bind_error (AssertThrow (discriminant vertices p > 0) ExcTransformationFailed)
       (\<lambda>_. let eta = eta_of vertices p in
             if \<bar>xi_denominator0 vertices eta\<bar> > 1 / 10 ^ 10 * max_x vertices
             then Inr ((p ! 0 + subexpr0 vertices eta) / xi_denominator0 vertices eta, eta)
             else if \<bar>xi_denominator1 vertices eta\<bar> > 1 / 10 ^ 10 * max_y vertices
             then Inr ((subexpr1 vertices eta + p ! 1) / xi_denominator1 vertices eta, eta)
             else Inl ExcTransformationFailed)"

section \<open>MappingQGeneric: the public inversion functions\<close>

text \<open>
  \<open>MappingQGeneric::transform_real_to_unit_cell_internal\<close>: the specialisations for
  the pairs \<open>(dim, spacedim)\<close>. For \<open>(1, 3)\<close> the body is
  \<open>Assert(false, ExcNotImplemented()); return {};\<close> and for every other pair
  without a specialisation \<open>Assert(false, ExcInternalError()); return Point<dim>();\<close>.
\<close>

definition transform_real_to_unit_cell_internal ::
  "bool \<Rightarrow> nat \<Rightarrow> nat \<Rightarrow> (point \<Rightarrow> point \<times> matrix) \<Rightarrow> shape_functions \<Rightarrow> point list \<Rightarrow>
   real \<Rightarrow> point \<Rightarrow> point \<Rightarrow> error + coordinate list" where
  "transform_real_to_unit_cell_internal debug dimension spacedim F shape points diameter
     p initial_p_unit =
     (if dimension = spacedim \<and> 1 \<le> dimension \<and> dimension \<le> 3
      then Inr (do_transform_real_to_unit_cell_internal dimension F p initial_p_unit)
      else if spacedim = dimension + 1 \<and> 1 \<le> dimension \<and> dimension \<le> 2
      then bind_error
             (do_transform_real_to_unit_cell_internal_codim1 dimension spacedim shape points
                diameter p initial_p_unit)
             (\<lambda>p_unit. Inr (map Finite p_unit))
      else if dimension = 1 \<and> spacedim = 3
      then bind_error (Assert debug False ExcNotImplemented)
             (\<lambda>_. Inr (replicate dimension (Finite 0)))
      else bind_error (Assert debug False ExcInternalError)
             (\<lambda>_. Inr (replicate dimension (Finite 0))))"

text \<open>
  What \<open>transform_real_to_unit_cell\<close> takes from the cell and from other files:
  \<open>preserves_vertex_locations()\<close>, the vertices, the affine approximation
  \<open>cell->real_to_unit_cell_affine_approximation\<close> and
  \<open>GeometryInfo<dim>::project_to_unit_cell\<close> are arguments.

  The closed formula is tried first for degree 1 in one dimension and in two
  dimensions with \<open>dim = spacedim\<close>. \<open>Some\<close> is a \<open>return\<close> from inside the
  \<open>try\<close> block; \<open>None\<close> is a \<open>break\<close> or the caught \<open>ExcTransformationFailed\<close>,
  after which the function goes on to the Newton iteration. (For \<open>dim = 2\<close> and
  \<open>spacedim = 3\<close> the condition of the \<open>if\<close> is false.)
\<close>

definition try_exact_formula ::
  "nat \<Rightarrow> nat \<Rightarrow> point list \<Rightarrow> point \<Rightarrow> coordinate list option" where
  "try_exact_formula dimension spacedim vertices p =
     (if dimension = 1
      then (if spacedim = 1 then Some (MappingQ1_transform_real_to_unit_cell_1d vertices p)
            else None)
      else (case MappingQ1_transform_real_to_unit_cell_2d vertices p of
              Inl e \<Rightarrow> None
            | Inr (xi, eta) \<Rightarrow>
                if - (1 / 10 ^ 15) \<le> eta \<and> eta \<le> 1 + 1 / 10 ^ 15 \<and>
                   - (1 / 10 ^ 15) \<le> xi \<and> xi \<le> 1 + 1 / 10 ^ 15
                then Some [Finite xi, Finite eta]
                else None))"

definition transform_real_to_unit_cell ::
  "bool \<Rightarrow> nat \<Rightarrow> nat \<Rightarrow> nat \<Rightarrow> bool \<Rightarrow> point list \<Rightarrow> (point \<Rightarrow> point) \<Rightarrow> (point \<Rightarrow> point) \<Rightarrow>
   (point \<Rightarrow> point \<times> matrix) \<Rightarrow> shape_functions \<Rightarrow> point list \<Rightarrow> real \<Rightarrow> point \<Rightarrow>
   error + coordinate list" where
  "transform_real_to_unit_cell debug dimension spacedim polynomial_degree
     preserves_vertex_locations vertices real_to_unit_cell_affine_approximation
     project_to_unit_cell F shape points diameter p =
     (case (if preserves_vertex_locations \<and> polynomial_degree = 1 \<and>
               (dimension = 1 \<or> (dimension = 2 \<and> dimension = spacedim))
            then try_exact_formula dimension spacedim vertices p
            else None) of
        Some point \<Rightarrow> Inr point
      | None \<Rightarrow>
          if preserves_vertex_locations \<and> dimension = 1 \<and> polynomial_degree = 1
          then Inr (map Finite (real_to_unit_cell_affine_approximation p))
          else
            (let initial_p_unit =
                   project_to_unit_cell
                     (if preserves_vertex_locations
                      then real_to_unit_cell_affine_approximation p
                      else replicate dimension (1 / 2))
             in bind_error
                  (transform_real_to_unit_cell_internal debug dimension spacedim F shape
                     points diameter p initial_p_unit)
                  (\<lambda>p_unit.
                     if first_coordinate_is_infinity p_unit then Inl ExcTransformationFailed
                     else Inr p_unit)))"

text \<open>
  \<open>MappingQGeneric::transform_points_real_to_unit_cell\<close>. \<open>initial_guess\<close> is the
  inverse of the affine approximation of the cell
  (\<open>GridTools::affine_cell_approximation\<close>, from another file). Each point is
  inverted inside a \<open>try\<close> block whose handler for \<open>ExcTransformationFailed\<close> sets the
  first coordinate of the output to infinity; the Newton iteration reports failure by
  its return value and raises nothing, so the value of the \<open>try\<close> block is always an
  \<open>Inr\<close>.
\<close>

definition transform_one_point ::
  "nat \<Rightarrow> (point \<Rightarrow> point \<times> matrix) \<Rightarrow> (point \<Rightarrow> point) \<Rightarrow> (point \<Rightarrow> point) \<Rightarrow>
   point \<Rightarrow> coordinate list \<Rightarrow> error + coordinate list" where
  "transform_one_point dimension F initial_guess project_to_unit_cell real_point unit_point =
     (case (Inr (do_transform_real_to_unit_cell_internal dimension F real_point
                   (project_to_unit_cell (initial_guess real_point)))
            :: error + coordinate list) of
        Inr p_unit \<Rightarrow> Inr p_unit
      | Inl ExcTransformationFailed \<Rightarrow> Inr (unit_point[0 := PlusInfinity])
      | Inl e \<Rightarrow> Inl e)"

fun transform_points_loop ::
  "nat \<Rightarrow> (point \<Rightarrow> point \<times> matrix) \<Rightarrow> (point \<Rightarrow> point) \<Rightarrow> (point \<Rightarrow> point) \<Rightarrow>
   point list \<Rightarrow> nat list \<Rightarrow> coordinate list list \<Rightarrow> error + coordinate list list" where
  "transform_points_loop dimension F initial_guess project_to_unit_cell real_points []
     unit_points = Inr unit_points"
| "transform_points_loop dimension F initial_guess project_to_unit_cell real_points (i # is)
     unit_points =
     bind_error
       (transform_one_point dimension F initial_guess project_to_unit_cell
          (real_points ! i) (unit_points ! i))
       (\<lambda>p_unit. transform_points_loop dimension F initial_guess project_to_unit_cell
                    real_points is (unit_points[i := p_unit]))"

definition transform_points_real_to_unit_cell ::
  "bool \<Rightarrow> nat \<Rightarrow> (point \<Rightarrow> point \<times> matrix) \<Rightarrow> (point \<Rightarrow> point) \<Rightarrow> (point \<Rightarrow> point) \<Rightarrow>
   point list \<Rightarrow> coordinate list list \<Rightarrow> error + coordinate list list" where
  "transform_points_real_to_unit_cell debug dimension F initial_guess project_to_unit_cell
     real_points unit_points =
     bind_error
       (Assert debug (length real_points = length unit_points) ExcDimensionMismatch)
       (\<lambda>_. transform_points_loop dimension F initial_guess project_to_unit_cell
               real_points [0 ..< length real_points] unit_points)"

section \<open>Proofs: cell batches\<close>

lemma those_map_Some:
  "(\<And>x. x \<in> set xs \<Longrightarrow> f x = Some (g x)) \<Longrightarrow> those (map f xs) = Some (map g xs)"
  by (induction xs) auto

lemma those_Some_nth:
  "those xs = Some ys \<Longrightarrow> length ys = length xs \<and> (\<forall>i < length xs. xs ! i = Some (ys ! i))"
proof (induction xs arbitrary: ys)
  case Nil
  then show ?case by simp
next
  case (Cons x xs)
  then obtain y ys' where "x = Some y" "those xs = Some ys'" "ys = y # ys'"
    by (auto split: option.splits)
  then show ?case using Cons.IH[of ys'] by (auto simp: nth_Cons split: nat.splits)
qed

lemma lane_positions_length:
  "n_comp \<le> n_lanes \<Longrightarrow> length (lane_positions n_lanes n_comp pos) = n_lanes"
  by (simp add: lane_positions_def)

lemma lane_positions_nth:
  "0 < n_comp \<Longrightarrow> n_comp \<le> n_lanes \<Longrightarrow> j < n_lanes \<Longrightarrow>
   lane_positions n_lanes n_comp pos ! j = pos + min j (n_comp - 1)"
  by (auto simp: lane_positions_def nth_append min_def)

lemma lane_positions_bound:
  "0 < n_comp \<Longrightarrow> k \<in> set (lane_positions n_lanes n_comp pos) \<Longrightarrow> k < pos + n_comp"
  by (auto simp: lane_positions_def)

lemma lane_positions_take:
  "take n_comp (lane_positions n_lanes n_comp pos) = [pos ..< pos + n_comp]"
  by (simp add: lane_positions_def)

lemma n_comp_of_bounds:
  "0 < n_lanes \<Longrightarrow> ic \<le> n_lanes \<Longrightarrow> 0 < n_comp_of n_lanes ic \<and> n_comp_of n_lanes ic \<le> n_lanes"
  by (simp add: n_comp_of_def)

lemma fill_batches_Some:
  assumes "0 < n_lanes" "\<forall>ic \<in> set ics. ic \<le> n_lanes"
    and "pos + sum_list (map (n_comp_of n_lanes) ics) \<le> length ren"
    and "\<forall>k < length ren. ren ! k < length old"
  shows "\<exists>flat. fill_batches n_lanes old ren ics pos =
           Some (flat, pos + sum_list (map (n_comp_of n_lanes) ics))"
  using assms
proof (induction ics arbitrary: pos)
  case Nil
  then show ?case by simp
next
  case (Cons ic ics)
  let ?n = "n_comp_of n_lanes ic"
  have n: "0 < ?n" "?n \<le> n_lanes" using Cons.prems n_comp_of_bounds[of n_lanes ic] by auto
  have rd: "\<And>k. k \<in> set (lane_positions n_lanes ?n pos) \<Longrightarrow>
      renumbered_cell old ren k = Some (old ! (ren ! k))"
  proof -
    fix k assume "k \<in> set (lane_positions n_lanes ?n pos)"
    then have "k < pos + ?n" using lane_positions_bound n by blast
    then have "k < length ren" using Cons.prems(3) by simp
    then show "renumbered_cell old ren k = Some (old ! (ren ! k))"
      using Cons.prems(4) by (simp add: renumbered_cell_def)
  qed
  have th: "those (map (renumbered_cell old ren) (lane_positions n_lanes ?n pos)) =
      Some (map (\<lambda>k. old ! (ren ! k)) (lane_positions n_lanes ?n pos))"
    by (rule those_map_Some) (rule rd)
  have "\<exists>flat. fill_batches n_lanes old ren ics (pos + ?n) =
           Some (flat, (pos + ?n) + sum_list (map (n_comp_of n_lanes) ics))"
    using Cons.prems by (intro Cons.IH) (auto simp: add.assoc)
  then obtain rest where "fill_batches n_lanes old ren ics (pos + ?n) =
           Some (rest, (pos + ?n) + sum_list (map (n_comp_of n_lanes) ics))" by blast
  then show ?case using th by (simp add: Let_def add.assoc)
qed

lemma fill_batches_result:
  assumes "0 < n_lanes" "\<forall>ic \<in> set ics. ic \<le> n_lanes"
    and "fill_batches n_lanes old ren ics pos = Some (flat, p)"
  shows "length flat = length ics * n_lanes \<and>
         p = pos + sum_list (map (n_comp_of n_lanes) ics) \<and>
         (\<forall>i < length ics. \<forall>j < n_lanes.
            flat ! (i * n_lanes + j) =
              old ! (ren ! (pos + batch_start n_lanes ics i +
                            min j (n_comp_of n_lanes (ics ! i) - 1)))) \<and>
         active_lanes n_lanes ics flat =
           map (\<lambda>k. old ! (ren ! k)) [pos ..< pos + sum_list (map (n_comp_of n_lanes) ics)]"
  using assms
proof (induction ics arbitrary: pos flat p)
  case Nil
  then show ?case by simp
next
  case (Cons ic ics)
  let ?n = "n_comp_of n_lanes ic"
  let ?ps = "lane_positions n_lanes ?n pos"
  have n: "0 < ?n" "?n \<le> n_lanes" using Cons.prems n_comp_of_bounds[of n_lanes ic] by auto
  from Cons.prems(3) obtain lanes rest where
    lanes: "those (map (renumbered_cell old ren) ?ps) = Some lanes"
    and rest: "fill_batches n_lanes old ren ics (pos + ?n) = Some (rest, p)"
    and flat: "flat = lanes @ rest"
    by (auto simp: Let_def split: option.splits)
  have len: "length lanes = n_lanes"
    using those_Some_nth[OF lanes] lane_positions_length[OF n(2)] by simp
  have nth: "lanes ! j = old ! (ren ! (?ps ! j))" if "j < n_lanes" for j
  proof -
    have "map (renumbered_cell old ren) ?ps ! j = Some (lanes ! j)"
      using those_Some_nth[OF lanes] that lane_positions_length[OF n(2)] by simp
    then have "renumbered_cell old ren (?ps ! j) = Some (lanes ! j)"
      using that lane_positions_length[OF n(2)] by simp
    then show ?thesis by (auto simp: renumbered_cell_def split: if_splits)
  qed
  have IH: "length rest = length ics * n_lanes \<and>
         p = (pos + ?n) + sum_list (map (n_comp_of n_lanes) ics) \<and>
         (\<forall>i < length ics. \<forall>j < n_lanes.
            rest ! (i * n_lanes + j) =
              old ! (ren ! ((pos + ?n) + batch_start n_lanes ics i +
                            min j (n_comp_of n_lanes (ics ! i) - 1)))) \<and>
         active_lanes n_lanes ics rest =
           map (\<lambda>k. old ! (ren ! k))
             [(pos + ?n) ..< (pos + ?n) + sum_list (map (n_comp_of n_lanes) ics)]"
    using Cons.prems(1,2) rest by (intro Cons.IH) auto
  have c1: "length flat = length (ic # ics) * n_lanes" using flat len IH by simp
  have c2: "p = pos + sum_list (map (n_comp_of n_lanes) (ic # ics))" using IH by simp
  have c3: "flat ! (i * n_lanes + j) =
              old ! (ren ! (pos + batch_start n_lanes (ic # ics) i +
                            min j (n_comp_of n_lanes ((ic # ics) ! i) - 1)))"
    if "i < length (ic # ics)" "j < n_lanes" for i j
  proof (cases i)
    case 0
    then show ?thesis
      using that flat len nth[OF that(2)] lane_positions_nth[OF n that(2)]
      by (simp add: nth_append batch_start_def)
  next
    case (Suc i')
    have "flat ! (i * n_lanes + j) = rest ! (i' * n_lanes + j)"
      using Suc flat len by (simp add: nth_append)
    then show ?thesis using IH that Suc by (simp add: batch_start_def add.assoc)
  qed
  have tk: "take ?n lanes = map (\<lambda>k. old ! (ren ! k)) [pos ..< pos + ?n]"
  proof (rule nth_equalityI)
    show "length (take ?n lanes) = length (map (\<lambda>k. old ! (ren ! k)) [pos ..< pos + ?n])"
      using len n by simp
  next
    fix i assume "i < length (take ?n lanes)"
    then have i: "i < ?n" by simp
    then have il: "i < n_lanes" using n by simp
    have m: "min i (?n - 1) = i" using i by simp
    have "lanes ! i = old ! (ren ! (pos + i))"
      using nth[OF il] lane_positions_nth[OF n il, of pos] m by simp
    then show "take ?n lanes ! i = map (\<lambda>k. old ! (ren ! k)) [pos ..< pos + ?n] ! i"
      using i by simp
  qed
  have c4: "active_lanes n_lanes (ic # ics) flat =
           map (\<lambda>k. old ! (ren ! k))
             [pos ..< pos + sum_list (map (n_comp_of n_lanes) (ic # ics))]"
  proof -
    have "active_lanes n_lanes (ic # ics) flat = take ?n lanes @ active_lanes n_lanes ics rest"
      using flat len n by simp
    also have "\<dots> = map (\<lambda>k. old ! (ren ! k)) ([pos ..< pos + ?n] @
         [(pos + ?n) ..< (pos + ?n) + sum_list (map (n_comp_of n_lanes) ics)])"
      using tk IH by simp
    also have "[pos ..< pos + ?n] @
         [(pos + ?n) ..< (pos + ?n) + sum_list (map (n_comp_of n_lanes) ics)] =
         [pos ..< pos + sum_list (map (n_comp_of n_lanes) (ic # ics))]"
      using upt_add_eq_append[of pos "pos + ?n" "sum_list (map (n_comp_of n_lanes) ics)"]
      by (simp only: list.map sum_list.Cons add.assoc le_add1)
    finally show ?thesis .
  qed
  show ?case using c1 c2 c3 c4 by blast
qed



lemma batch_start_full:
  "i \<le> length ics \<Longrightarrow> \<forall>k < i. ics ! k = 0 \<Longrightarrow> batch_start n_lanes ics i = i * n_lanes"
proof (induction i)
  case 0
  then show ?case by (simp add: batch_start_def)
next
  case (Suc i)
  then have "take (Suc i) ics = take i ics @ [ics ! i]"
    by (simp add: take_Suc_conv_app_nth)
  then show ?case using Suc by (simp add: batch_start_def n_comp_of_def)
qed

lemma batch_start_length:
  "batch_start n_lanes ics (length ics) = sum_list (map (n_comp_of n_lanes) ics)"
  by (simp add: batch_start_def)




lemma batch_start_take:
  "i \<le> n \<Longrightarrow> batch_start n_lanes (take n ics) i = batch_start n_lanes ics i"
  by (simp add: batch_start_def min_def)

lemma plan_take_bounds:
  assumes "n_batches \<le> length irregular_cells"
    and "\<forall>i < n_batches. irregular_cells ! i \<le> n_lanes"
  shows "\<forall>ic \<in> set (take n_batches irregular_cells). ic \<le> n_lanes"
  using assms by (auto simp: in_set_conv_nth)



text \<open>
  Claim C5, as amended. Let the plan have \<open>n_batches\<close> entries, none above
  \<open>n_lanes\<close>, let the lanes in use add up to the length of \<open>renumbering\<close>, and let
  every entry of \<open>renumbering\<close> be an index of the old array. Then the loop returns a
  flat array of \<open>n_batches * n_lanes\<close> handles. In batch \<open>i\<close>, a lane \<open>j\<close> in use
  holds the handle at position \<open>batch_start i + j\<close> of the renumbered sequence, where
  \<open>batch_start i\<close> is the number of lanes in use in the batches before \<open>i\<close>; a padding
  lane holds the handle of the last lane in use of its batch. \<open>batch_start i\<close> is
  \<open>i * n_lanes\<close> when every batch before \<open>i\<close> is full, and smaller otherwise.
\<close>

theorem cell_batches_layout:
  assumes "0 < n_lanes"
    and "n_batches \<le> length irregular_cells"
    and "\<forall>i < n_batches. irregular_cells ! i \<le> n_lanes"
    and "batch_start n_lanes irregular_cells n_batches = length renumbering"
    and "\<forall>k < length renumbering. renumbering ! k < length old"
  shows "\<exists>flat.
      renumber_cell_level_index n_lanes n_batches irregular_cells renumbering old =
        Some (flat, length renumbering) \<and>
      length flat = n_batches * n_lanes \<and>
      (\<forall>i < n_batches. \<forall>j < n_lanes.
         j < n_comp_of n_lanes (irregular_cells ! i) \<longrightarrow>
           flat ! (i * n_lanes + j) =
             old ! (renumbering ! (batch_start n_lanes irregular_cells i + j))) \<and>
      (\<forall>i < n_batches. \<forall>j < n_lanes.
         n_comp_of n_lanes (irregular_cells ! i) \<le> j \<longrightarrow>
           flat ! (i * n_lanes + j) =
             flat ! (i * n_lanes + (n_comp_of n_lanes (irregular_cells ! i) - 1))) \<and>
      (\<forall>i < n_batches. (\<forall>k < i. irregular_cells ! k = 0) \<longrightarrow>
         batch_start n_lanes irregular_cells i = i * n_lanes)"
proof -
  let ?ics = "take n_batches irregular_cells"
  have len: "length ?ics = n_batches" using assms(2) by simp
  have bnd: "\<forall>ic \<in> set ?ics. ic \<le> n_lanes" using plan_take_bounds[OF assms(2,3)] .
  have total: "sum_list (map (n_comp_of n_lanes) ?ics) = length renumbering"
    using assms(4) by (simp add: batch_start_def)
  have "\<exists>flat. fill_batches n_lanes old renumbering ?ics 0 =
           Some (flat, 0 + sum_list (map (n_comp_of n_lanes) ?ics))"
    by (rule fill_batches_Some[OF assms(1) bnd _ assms(5)]) (simp add: total)
  then obtain flat where fb:
    "fill_batches n_lanes old renumbering ?ics 0 = Some (flat, length renumbering)"
    using total by auto
  note r = fill_batches_result[OF assms(1) bnd fb]
  have r1: "length flat = n_batches * n_lanes" using r len by simp
  have r3: "flat ! (i * n_lanes + j) =
              old ! (renumbering ! (batch_start n_lanes irregular_cells i +
                            min j (n_comp_of n_lanes (irregular_cells ! i) - 1)))"
    if "i < n_batches" "j < n_lanes" for i j
  proof -
    have "flat ! (i * n_lanes + j) =
              old ! (renumbering ! (0 + batch_start n_lanes ?ics i +
                            min j (n_comp_of n_lanes (?ics ! i) - 1)))"
      using r that len by simp
    then show ?thesis using that batch_start_take[of i n_batches n_lanes irregular_cells]
      by simp
  qed
  have pos: "0 < n_comp_of n_lanes (irregular_cells ! i)" if "i < n_batches" for i
    using assms(1) by (simp add: n_comp_of_def)
  have a: "flat ! (i * n_lanes + j) =
             old ! (renumbering ! (batch_start n_lanes irregular_cells i + j))"
    if "i < n_batches" "j < n_lanes" "j < n_comp_of n_lanes (irregular_cells ! i)" for i j
  proof -
    have "min j (n_comp_of n_lanes (irregular_cells ! i) - 1) = j" using that by simp
    then show ?thesis using r3[OF that(1,2)] by simp
  qed
  have b: "flat ! (i * n_lanes + j) =
             flat ! (i * n_lanes + (n_comp_of n_lanes (irregular_cells ! i) - 1))"
    if "i < n_batches" "j < n_lanes" "n_comp_of n_lanes (irregular_cells ! i) \<le> j" for i j
  proof -
    let ?n = "n_comp_of n_lanes (irregular_cells ! i)"
    have l: "?n - 1 < n_lanes" using that pos[OF that(1)] by simp
    have "min j (?n - 1) = ?n - 1" "min (?n - 1) (?n - 1) = ?n - 1" using that by simp_all
    then show ?thesis using r3[OF that(1,2)] r3[OF that(1) l] by simp
  qed
  have c: "batch_start n_lanes irregular_cells i = i * n_lanes"
    if "i < n_batches" "\<forall>k < i. irregular_cells ! k = 0" for i
    using batch_start_full[of i irregular_cells n_lanes] that assms(2) by simp
  show ?thesis
    unfolding renumber_cell_level_index_def using assms(2) fb r1 a b c by auto
qed



theorem cell_batches_layout_witness:
  "0 < (2::nat) \<and> batch_start 2 [1, 0] 2 = length [2, 0, 1 :: nat] \<and>
   (\<exists>flat. renumber_cell_level_index 2 2 [1, 0] [2, 0, 1]
              [(0, 5), (0, 6), (1, 0 :: nat) :: cell_handle] = Some (flat, 3) \<and>
           length flat = 4 \<and> flat ! 1 = flat ! 0)"
proof -
  have h1: "0 < (2::nat)" by simp
  have h2: "(2::nat) \<le> length [1, 0 :: nat]" by simp
  have h3: "\<forall>i < 2. [1, 0 :: nat] ! i \<le> 2"
    by (auto simp: less_Suc_eq numeral_2_eq_2)
  have h4: "batch_start 2 [1, 0] 2 = length [2, 0, 1 :: nat]"
    by (simp add: batch_start_def n_comp_of_def)
  have h5: "\<forall>k < length [2, 0, 1 :: nat].
      [2, 0, 1 :: nat] ! k < length [(0, 5), (0, 6), (1, 0 :: nat) :: cell_handle]"
    by (auto simp: less_Suc_eq numeral_3_eq_3)
  from cell_batches_layout[OF h1 h2 h3 h4 h5] obtain flat where
    r: "renumber_cell_level_index 2 2 [1, 0] [2, 0, 1]
        [(0, 5), (0, 6), (1, 0 :: nat) :: cell_handle] = Some (flat, length [2, 0, 1 :: nat])"
    and l: "length flat = 2 * 2"
    and p: "\<forall>i < 2. \<forall>j < 2. n_comp_of 2 ([1, 0] ! i) \<le> j \<longrightarrow>
           flat ! (i * 2 + j) = flat ! (i * 2 + (n_comp_of 2 ([1, 0] ! i) - 1))"
    by blast
  have "n_comp_of 2 ([1, 0] ! 0) \<le> 1 \<longrightarrow>
        flat ! (0 * 2 + 1) = flat ! (0 * 2 + (n_comp_of 2 ([1, 0] ! 0) - 1))"
    using p by (metis one_less_numeral_iff pos2 semiring_norm(76))
  then have "flat ! 1 = flat ! 0" by (simp add: n_comp_of_def)
  then show ?thesis using h1 h4 r l by simp
qed

text \<open>
  Claim C5 as stated fails after a batch with padding. One owned cell and two ghost
  cells with two lanes give the plan \<open>[1, 0]\<close>; lane \<open>0\<close> of batch \<open>1\<close> (flat
  position \<open>2\<close>) holds the cell at position \<open>1\<close> of the renumbered sequence, not the
  one at position \<open>2\<close>.
\<close>

theorem cell_batches_layout_counterexample:
  "set_ghost_slots 2 1 1 2 [1] = [1, 0] \<and>
   renumber_cell_level_index 2 2 [1, 0] [0, 1, 2]
       [(0, 0), (0, 1), (0, 2 :: nat) :: cell_handle] =
     Some ([(0, 0), (0, 0), (0, 1), (0, 2)], 3) \<and>
   [(0, 0), (0, 0), (0, 1), (0, 2 :: nat) :: cell_handle] ! (1 * 2 + 0) \<noteq>
     [(0, 0), (0, 1), (0, 2)] ! ([0, 1, 2] ! (1 * 2 + 0))"
  by code_simp




section \<open>Proofs: threading check and constraint pool\<close>













section \<open>Proofs: fill\_fe\_values\<close>
























section \<open>Proofs: Newton iterations\<close>


















lemma transform_one_point_eq:
  "transform_one_point dimension F initial_guess project_to_unit_cell real_point unit_point =
   Inr (do_transform_real_to_unit_cell_internal dimension F real_point
          (project_to_unit_cell (initial_guess real_point)))"
  by (simp add: transform_one_point_def)

lemma transform_points_loop_spec:
  assumes "distinct is" and "\<forall>i \<in> set is. i < length unit_points"
  shows "\<exists>ys. transform_points_loop dimension F g pr real_points is unit_points = Inr ys \<and>
           length ys = length unit_points \<and>
           (\<forall>i < length ys. ys ! i =
              (if i \<in> set is
               then do_transform_real_to_unit_cell_internal dimension F (real_points ! i)
                      (pr (g (real_points ! i)))
               else unit_points ! i))"
  using assms
proof (induction "is" arbitrary: unit_points)
  case Nil
  then show ?case by simp
next
  case (Cons i "is")
  let ?v = "do_transform_real_to_unit_cell_internal dimension F (real_points ! i)
              (pr (g (real_points ! i)))"
  let ?u = "unit_points[i := ?v]"
  have "distinct is" "\<forall>j \<in> set is. j < length ?u" using Cons.prems by auto
  from Cons.IH[OF this] obtain ys where
    ys: "transform_points_loop dimension F g pr real_points is ?u = Inr ys"
      "length ys = length ?u"
      "\<forall>j < length ys. ys ! j =
              (if j \<in> set is
               then do_transform_real_to_unit_cell_internal dimension F (real_points ! j)
                      (pr (g (real_points ! j)))
               else ?u ! j)"
    by blast
  have i: "i \<notin> set is" "i < length unit_points" using Cons.prems by auto
  have "transform_points_loop dimension F g pr real_points (i # is) unit_points = Inr ys"
    using ys(1) by (simp add: transform_one_point_eq bind_error_def)
  moreover have "length ys = length unit_points" using ys(2) by simp
  moreover have "\<forall>j < length ys. ys ! j =
              (if j \<in> set (i # is)
               then do_transform_real_to_unit_cell_internal dimension F (real_points ! j)
                      (pr (g (real_points ! j)))
               else unit_points ! j)"
    using ys(2,3) i by (auto simp: nth_list_update)
  ultimately show ?case by blast
qed

text \<open>
  Claim C10. For input and output arrays of one length,
  \<open>transform_points_real_to_unit_cell\<close> raises nothing; entry \<open>i\<close> of its result
  depends on point \<open>i\<close> alone: it is the result of the Newton iteration for that
  point from its own initial guess, that is, the converged reference coordinates when
  the iteration succeeds, and the invalid point, whose first coordinate is
  \<open>+infinity\<close>, when it fails.
\<close>

theorem transform_points_sentinel:
  assumes "length real_points = length unit_points"
  shows "\<exists>ys. transform_points_real_to_unit_cell debug dimension F initial_guess
                project_to_unit_cell real_points unit_points = Inr ys \<and>
           length ys = length real_points \<and>
           (\<forall>i < length real_points.
              ys ! i = do_transform_real_to_unit_cell_internal dimension F (real_points ! i)
                         (project_to_unit_cell (initial_guess (real_points ! i))) \<and>
              (case newton_run F (real_points ! i)
                      (project_to_unit_cell (initial_guess (real_points ! i))) of
                 (ex, p_unit, n) \<Rightarrow>
                   if ex = EarlyOut \<or> ex = Converged then ys ! i = map Finite p_unit
                   else ys ! i = invalid_point dimension \<and>
                        (0 < dimension \<longrightarrow> hd (ys ! i) = PlusInfinity)))"
proof -
  have "distinct [0 ..< length real_points]"
    "\<forall>i \<in> set [0 ..< length real_points]. i < length unit_points"
    using assms by auto
  from transform_points_loop_spec[OF this] obtain ys where
    ys: "transform_points_loop dimension F initial_guess project_to_unit_cell real_points
           [0 ..< length real_points] unit_points = Inr ys"
      "length ys = length unit_points"
      "\<forall>i < length ys. ys ! i =
              (if i \<in> set [0 ..< length real_points]
               then do_transform_real_to_unit_cell_internal dimension F (real_points ! i)
                      (project_to_unit_cell (initial_guess (real_points ! i)))
               else unit_points ! i)"
    by blast
  have run: "transform_points_real_to_unit_cell debug dimension F initial_guess
                project_to_unit_cell real_points unit_points = Inr ys"
    using ys(1) assms
    by (simp add: transform_points_real_to_unit_cell_def bind_error_def Assert_def)
  have each: "ys ! i = do_transform_real_to_unit_cell_internal dimension F (real_points ! i)
                         (project_to_unit_cell (initial_guess (real_points ! i)))"
    if "i < length real_points" for i
    using ys(2,3) that assms by simp
  have hd_inv: "0 < dimension \<Longrightarrow> hd (invalid_point dimension) = PlusInfinity"
    by (cases dimension) (simp_all add: invalid_point_def)
  have kind: "(case newton_run F (real_points ! i)
                      (project_to_unit_cell (initial_guess (real_points ! i))) of
                 (ex, p_unit, n) \<Rightarrow>
                   if ex = EarlyOut \<or> ex = Converged then ys ! i = map Finite p_unit
                   else ys ! i = invalid_point dimension \<and>
                        (0 < dimension \<longrightarrow> hd (ys ! i) = PlusInfinity))"
    if "i < length real_points" for i
    using each[OF that] hd_inv
    by (auto simp: do_transform_real_to_unit_cell_internal_def split: prod.splits)
  show ?thesis using run ys(2) assms each kind by auto
qed

theorem transform_points_sentinel_witness:
  "length [[0], [1 :: real]] = length [[NaN], [NaN]] \<and>
   transform_points_real_to_unit_cell True 1 (\<lambda>u. ([u ! 0 * u ! 0], [[2 * u ! 0]]))
     (\<lambda>x. x) (\<lambda>u. u) [[0], [1]] [[NaN], [NaN]] = Inr [[PlusInfinity], [Finite 1]] \<and>
   fst (newton_run (\<lambda>u. ([u ! 0 * u ! 0], [[2 * u ! 0]])) [0] [0]) = DetNonPositive \<and>
   [[PlusInfinity], [Finite 1]] ! 1 =
     do_transform_real_to_unit_cell_internal 1 (\<lambda>u. ([u ! 0 * u ! 0], [[2 * u ! 0]])) [1] [1]"
proof -
  let ?F = "\<lambda>u :: real list. ([u ! 0 * u ! 0], [[2 * u ! 0]])"
  have h: "length [[0], [1 :: real]] = length [[NaN], [NaN]]" by simp
  have r: "transform_points_real_to_unit_cell True 1 ?F (\<lambda>x. x) (\<lambda>u. u) [[0], [1]]
             [[NaN], [NaN]] = Inr [[PlusInfinity], [Finite 1]]"
    by code_simp
  have k: "fst (newton_run ?F [0] [0]) = DetNonPositive" by code_simp
  from transform_points_sentinel[OF h, of True 1 ?F "\<lambda>x. x" "\<lambda>u. u"] obtain ys where
    ys: "transform_points_real_to_unit_cell True 1 ?F (\<lambda>x. x) (\<lambda>u. u) [[0], [1]]
           [[NaN], [NaN]] = Inr ys"
      "\<forall>i < length [[0], [1 :: real]].
         ys ! i = do_transform_real_to_unit_cell_internal 1 ?F ([[0], [1]] ! i)
                    ([[0], [1]] ! i)"
    by blast
  have "ys = [[PlusInfinity], [Finite 1]]" using ys(1) r by simp
  moreover have "ys ! 1 = do_transform_real_to_unit_cell_internal 1 ?F ([[0], [1]] ! 1)
                    ([[0], [1]] ! 1)"
    using ys(2) by simp
  ultimately show ?thesis using h r k by simp
qed

section \<open>Proofs: the closed formula for bilinear cells in 2D\<close>











section \<open>Proofs: the pair dim = 1, spacedim = 3\<close>

text \<open>
  For a curve in three dimensions and a polynomial degree other than 1,
  \<open>transform_real_to_unit_cell\<close> reaches the specialisation
  \<open>MappingQGeneric<1, 3>::transform_real_to_unit_cell_internal\<close>, which computes
  nothing: with assertions enabled the call raises \<open>ExcNotImplemented\<close>, without
  them it returns the origin.
\<close>

lemma transform_real_to_unit_cell_1_3:
  assumes "polynomial_degree \<noteq> 1"
  shows "transform_real_to_unit_cell debug 1 3 polynomial_degree preserves_vertex_locations
           vertices real_to_unit_cell_affine_approximation project_to_unit_cell F shape
           points diameter p =
         (if debug then Inl ExcNotImplemented else Inr [Finite 0])"
  using assms
  by (simp add: transform_real_to_unit_cell_def transform_real_to_unit_cell_internal_def
      bind_error_def Assert_def first_coordinate_is_infinity_def Let_def)

end
